theory Spec2Isabelle
  imports Complex_Main
begin

section \<open>The blackjack trainer: shoe, counts, undo history and the legacy decision logic\<close>

text \<open>
  The development embeds the domain logic of \<^verbatim>\<open>src/Pages/BlackjackTrainer.jsx\<close>.
  The file is one React component; each event handler reads the component state of the
  current render and requests a new one. A handler is modelled as a function from the
  state it reads to the state it requests.

  A JavaScript number is a double or \<open>NaN\<close>. Counts are integers, which a double
  represents exactly up to \<open>2\<^sup>5\<^sup>3\<close>, beyond every count a shoe can hold; sums and differences
  of counts are exact. A quotient or a product is rounded to the nearest double as
  IEEE 754 does, and is kept as the rational number that this double is.

  The modules \<^verbatim>\<open>RulesEngine\<close>, \<^verbatim>\<open>CountingSystems\<close> and \<^verbatim>\<open>StrategyEngine\<close> that the file
  imports are not part of it. What the modelled functions take from them is a parameter.
\<close>

subsection \<open>JavaScript numbers and objects\<close>

datatype 'a jsnumber = Num 'a | NaN

text \<open>Comparisons with \<open>NaN\<close> are false; arithmetic with \<open>NaN\<close> is \<open>NaN\<close>.\<close>

fun jsLe :: "('a::linorder) jsnumber \<Rightarrow> 'a jsnumber \<Rightarrow> bool" where
  "jsLe (Num a) (Num b) = (a \<le> b)"
| "jsLe _ _ = False"

fun jsGe :: "('a::linorder) jsnumber \<Rightarrow> 'a jsnumber \<Rightarrow> bool" where
  "jsGe (Num a) (Num b) = (a \<ge> b)"
| "jsGe _ _ = False"

fun jsGt :: "('a::linorder) jsnumber \<Rightarrow> 'a jsnumber \<Rightarrow> bool" where
  "jsGt (Num a) (Num b) = (a > b)"
| "jsGt _ _ = False"

fun jsAdd :: "('a::plus) jsnumber \<Rightarrow> 'a jsnumber \<Rightarrow> 'a jsnumber" where
  "jsAdd (Num a) (Num b) = Num (a + b)"
| "jsAdd _ _ = NaN"

fun jsSub :: "('a::minus) jsnumber \<Rightarrow> 'a jsnumber \<Rightarrow> 'a jsnumber" where
  "jsSub (Num a) (Num b) = Num (a - b)"
| "jsSub _ _ = NaN"

text \<open>
  Rounding to a double, to nearest and to the even significand of two equally near: the
  significand has 53 bits, so a number \<open>a\<close> with \<open>2\<^sup>e \<le> a < 2\<^sup>e\<^sup>+\<^sup>1\<close> is rounded to a multiple of
  \<open>2\<^sup>e\<^sup>-\<^sup>5\<^sup>2\<close>. The exponent is not bounded here: the quotients and products of counts stay
  far inside the range of the normal doubles, where the two agree.
\<close>

function bitLength :: "int \<Rightarrow> int" where
  "bitLength n = (if n \<le> 0 then 0 else bitLength (n div 2) + 1)"
  by pat_completeness auto
termination
  by (relation "measure nat") auto

declare bitLength.simps [simp del]

definition pow2 :: "int \<Rightarrow> rat" where
  "pow2 e = (if 0 \<le> e then 2 ^ nat e else 1 / 2 ^ nat (- e))"

text \<open>The exponent \<open>e\<close> with \<open>2\<^sup>e \<le> a < 2\<^sup>e\<^sup>+\<^sup>1\<close>, for a positive \<open>a\<close>, from the lengths of its
  numerator and denominator.\<close>

definition floorLog2 :: "rat \<Rightarrow> int" where
  "floorLog2 a =
     (let (p, q) = quotient_of a;
          d = bitLength p - bitLength q
      in if pow2 d \<le> a then d else d - 1)"

definition roundHalfEven :: "rat \<Rightarrow> int" where
  "roundHalfEven m =
     (let f = \<lfloor>m\<rfloor>; r = m - of_int f
      in if r < 1 / 2 then f else if 1 / 2 < r then f + 1 else if even f then f else f + 1)"

definition toDouble :: "rat \<Rightarrow> rat" where
  "toDouble x =
     (if x = 0 then 0
      else
        let a = \<bar>x\<bar>;
            ulp = pow2 (floorLog2 a - 52);
            n = roundHalfEven (a / ulp)
        in sgn x * of_int n * ulp)"

text \<open>
  Every division in the file has a positive divisor: the constant 52, or a value that the
  line has just tested with \<^verbatim>\<open>> 0\<close>. For a zero divisor, where JavaScript gives an
  infinity or \<open>NaN\<close>, the model gives \<open>NaN\<close>.
\<close>

fun jsDiv :: "rat jsnumber \<Rightarrow> rat jsnumber \<Rightarrow> rat jsnumber" where
  "jsDiv (Num a) (Num b) = (if b = 0 then NaN else Num (toDouble (a / b)))"
| "jsDiv _ _ = NaN"

fun jsMul :: "rat jsnumber \<Rightarrow> rat jsnumber \<Rightarrow> rat jsnumber" where
  "jsMul (Num a) (Num b) = Num (toDouble (a * b))"
| "jsMul _ _ = NaN"

text \<open>A count used in a quotient.\<close>

fun toRat :: "int jsnumber \<Rightarrow> rat jsnumber" where
  "toRat (Num n) = Num (of_int n)"
| "toRat NaN = NaN"

text \<open>
  An object with string keys is an association list with distinct keys.
  \<open>objGet\<close> is the property read \<^verbatim>\<open>obj[key]\<close>, with \<open>None\<close> for \<^verbatim>\<open>undefined\<close>;
  \<open>objSet\<close> is the spread copy \<^verbatim>\<open>{ ...obj, [key]: v }\<close>: an existing key keeps its
  place, a new key is added. (JavaScript lists integer-like keys first; no function below
  observes the order of the keys, a sum of integers and \<open>NaN\<close> does not depend on it.)
\<close>

fun objGet :: "(string \<times> 'v) list \<Rightarrow> string \<Rightarrow> 'v option" where
  "objGet [] key = None"
| "objGet ((k, v) # rest) key = (if k = key then Some v else objGet rest key)"

fun objSet :: "(string \<times> 'v) list \<Rightarrow> string \<Rightarrow> 'v \<Rightarrow> (string \<times> 'v) list" where
  "objSet [] key v = [(key, v)]"
| "objSet ((k, w) # rest) key v = (if k = key then (k, v) # rest else (k, w) # objSet rest key v)"

definition objValues :: "(string \<times> 'v) list \<Rightarrow> 'v list" where
  "objValues obj = map snd obj"

text \<open>\<^verbatim>\<open>undefined\<close> used as a number is \<open>NaN\<close>.\<close>

fun toNumber :: "'a jsnumber option \<Rightarrow> 'a jsnumber" where
  "toNumber None = NaN"
| "toNumber (Some v) = v"

text \<open>\<^verbatim>\<open>x || 0\<close> on a count: \<^verbatim>\<open>undefined\<close>, \<open>NaN\<close> and \<open>0\<close> all give \<open>0\<close>.\<close>

fun orZero :: "int jsnumber option \<Rightarrow> int" where
  "orZero (Some (Num n)) = n"
| "orZero _ = 0"

subsection \<open>Built-in functions\<close>

text \<open>
  \<^verbatim>\<open>Math.round\<close> gives the integer nearest to its argument and, of two integers equally
  near, the greater one (ECMAScript, \<^verbatim>\<open>Math.round\<close>). A result of \<open>-0\<close> is the integer
  \<open>0\<close> of the model; every comparison of the file treats the two alike.
\<close>

fun MathRound :: "rat jsnumber \<Rightarrow> int jsnumber" where
  "MathRound (Num q) = Num \<lfloor>q + 1 / 2\<rfloor>"
| "MathRound NaN = NaN"

text \<open>
  \<^verbatim>\<open>parseInt\<close> with one argument: leading white space is skipped, then a sign, then the
  prefix \<^verbatim>\<open>0x\<close> that selects radix 16, and the longest run of digits of the radix is the
  value; with no digit the result is \<open>NaN\<close>. A string of the model is a string of code units
  below 256; the white space and the line ends among them are the seven listed, the last
  one the no-break space.
\<close>

definition isWhiteSpace :: "char \<Rightarrow> bool" where
  "isWhiteSpace c =
     (c \<in> set [CHR 0x09, CHR 0x0A, CHR 0x0B, CHR 0x0C, CHR 0x0D, CHR 0x20, CHR 0xA0])"

fun indexOf :: "'a list \<Rightarrow> 'a \<Rightarrow> nat option" where
  "indexOf [] c = None"
| "indexOf (d # ds) c = (if d = c then Some 0 else map_option Suc (indexOf ds c))"

definition digitValue :: "char \<Rightarrow> nat option" where
  "digitValue c =
     (case indexOf ''0123456789abcdef'' c of
        Some d \<Rightarrow> Some d
      | None \<Rightarrow> map_option (\<lambda>i. i + 10) (indexOf ''ABCDEF'' c))"

definition isDigit :: "nat \<Rightarrow> char \<Rightarrow> bool" where
  "isDigit radix c = (case digitValue c of Some d \<Rightarrow> d < radix | None \<Rightarrow> False)"

definition parseInt :: "string \<Rightarrow> int jsnumber" where
  "parseInt str =
     (let s = dropWhile isWhiteSpace str;
          sign = (if take 1 s = ''-'' then - 1 else 1);
          s = (if take 1 s = ''-'' \<or> take 1 s = ''+'' then drop 1 s else s);
          radix = (if take 2 s = ''0x'' \<or> take 2 s = ''0X'' then 16 else 10);
          s = (if radix = 16 then drop 2 s else s);
          z = takeWhile (isDigit radix) s
      in if z = [] then NaN
         else Num (sign * int (foldl (\<lambda>acc c. acc * radix
                                       + (case digitValue c of Some d \<Rightarrow> d | None \<Rightarrow> 0)) 0 z)))"

text \<open>\<^verbatim>\<open>Array.prototype.includes\<close> on an array of integers: \<open>NaN\<close> is in none of them.\<close>

definition jsIncludes :: "int list \<Rightarrow> int jsnumber \<Rightarrow> bool" where
  "jsIncludes xs d = (case d of Num n \<Rightarrow> n \<in> set xs | NaN \<Rightarrow> False)"

text \<open>
  \<^verbatim>\<open>toFixed(1)\<close>: the sign, then the decimal digits of the integer \<open>n\<close> for which \<open>n / 10\<close>
  is nearest to the magnitude of the double, the larger \<open>n\<close> of two equally near. (For magnitudes that a
  percentage can have; from \<open>10\<^sup>2\<^sup>1\<close> on JavaScript switches to exponent notation.)
\<close>

fun showNat :: "nat \<Rightarrow> string" where
  "showNat n = (if n < 10 then [''0123456789'' ! n]
                else showNat (n div 10) @ [''0123456789'' ! (n mod 10)])"

declare showNat.simps [simp del]

definition toFixed1 :: "rat jsnumber \<Rightarrow> string" where
  "toFixed1 x =
     (case x of
        NaN \<Rightarrow> ''NaN''
      | Num q \<Rightarrow>
          (let n = nat \<lfloor>\<bar>q\<bar> * 10 + 1 / 2\<rfloor>
           in (if q < 0 then ''-'' else '''') @ showNat (n div 10) @ ''.'' @ showNat (n mod 10)))"

subsection \<open>The component state\<close>

text \<open>
  Of the rules configuration the file reads \<^verbatim>\<open>numDecks\<close>, \<^verbatim>\<open>countingSystem\<close>,
  \<^verbatim>\<open>insurance\<close>, \<^verbatim>\<open>lateSurrender\<close> and \<^verbatim>\<open>das\<close> in its logic.
\<close>

record rules =
  numDecks :: int
  countingSystem :: string
  insurance :: bool
  lateSurrender :: bool
  das :: bool

type_synonym shoe = "(string \<times> int jsnumber) list"

text \<open>
  A history entry is the object \<^verbatim>\<open>applyCard\<close> pushes,
  \<^verbatim>\<open>{ card, weight, rc, remaining }\<close>, or the one \<^verbatim>\<open>applyQuickCount\<close> pushes,
  \<^verbatim>\<open>{ quick, card, rc, remaining }\<close>.
\<close>

datatype historyEntry =
    CardEntry (card_h: string) (weight: int) (rc: int) (remaining: shoe)
  | QuickEntry (quick: int) (card_h: string) (rc: int) (remaining: shoe)

text \<open>The object the legacy recommendation stores; its \<^verbatim>\<open>note\<close> text is not modelled.\<close>

record recommendation =
  action :: string
  ev :: rat
  color :: string

record state =
  rules :: rules
  runningCount :: int
  cardsRemaining :: shoe
  history :: "historyEntry list"
  handType :: string
  handValue :: string
  dealerCard :: string
  recommendation :: "recommendation option"

text \<open>The \<^verbatim>\<open>useState\<close> initial values (lines 94-107), for a given initial rules object.\<close>

definition initialState :: "rules \<Rightarrow> state" where
  "initialState r =
     \<lparr>rules = r, runningCount = 0, cardsRemaining = [], history = [],
      handType = ''hard'', handValue = ''16'', dealerCard = ''10'', recommendation = None\<rparr>"

text \<open>
  The tag table of a counting system, \<^verbatim>\<open>getCountingSystem(id).tags\<close>. The registry is
  imported from a module outside this file, so it is a parameter of every function that
  calls it: a function from the identifier to the table.
\<close>

type_synonym tags = "string \<Rightarrow> int option"

subsection \<open>Shoe operations\<close>

definition resetShoe :: "state \<Rightarrow> state" where
  "resetShoe s =
     (let initialCards =
            foldl (\<lambda>obj card'. objSet obj card' (Num (numDecks (rules s) * 4))) []
              ([''2'', ''3'', ''4'', ''5'', ''6''] @ [''7'', ''8'', ''9'']);
          initialCards = objSet initialCards ''10'' (Num (numDecks (rules s) * 16));
          initialCards = objSet initialCards ''A'' (Num (numDecks (rules s) * 4))
      in s\<lparr>cardsRemaining := initialCards, runningCount := 0, history := [],
            recommendation := None\<rparr>)"

definition getTotalCardsRemaining :: "state \<Rightarrow> int jsnumber" where
  "getTotalCardsRemaining s = foldl jsAdd (Num 0) (objValues (cardsRemaining s))"

definition applyCard :: "(string \<Rightarrow> tags) \<Rightarrow> string \<Rightarrow> state \<Rightarrow> state" where
  "applyCard getCountingSystem card' s =
     (if jsLe (toNumber (objGet (cardsRemaining s) card')) (Num 0) then s
      else
        let countingSystemTags = getCountingSystem (countingSystem (rules s));
            weight = (case countingSystemTags card' of None \<Rightarrow> 0 | Some w \<Rightarrow> w);
            newRemaining = objSet (cardsRemaining s) card'
                             (jsSub (toNumber (objGet (cardsRemaining s) card')) (Num 1));
            newRC = runningCount s + weight
        in s\<lparr>history := history s @ [CardEntry card' weight (runningCount s) (cardsRemaining s)],
              cardsRemaining := newRemaining,
              runningCount := newRC\<rparr>)"

definition removeCard :: "(string \<Rightarrow> tags) \<Rightarrow> string \<Rightarrow> state \<Rightarrow> state" where
  "removeCard getCountingSystem card' s =
     (let maxCards = (if card' = ''10'' then numDecks (rules s) * 16 else numDecks (rules s) * 4)
      in if jsGe (toNumber (objGet (cardsRemaining s) card')) (Num maxCards) then s
         else
           let countingSystemTags = getCountingSystem (countingSystem (rules s));
               weight = (case countingSystemTags card' of None \<Rightarrow> 0 | Some w \<Rightarrow> w);
               newRemaining = objSet (cardsRemaining s) card'
                                (jsAdd (toNumber (objGet (cardsRemaining s) card')) (Num 1));
               newRC = runningCount s - weight
           in s\<lparr>cardsRemaining := newRemaining, runningCount := newRC\<rparr>)"

text \<open>The \<^verbatim>\<open>for (let card of ...) { if (cardsCopy[card] > 0) { ...; break; } }\<close> loop.\<close>

fun firstWithCards :: "shoe \<Rightarrow> string list \<Rightarrow> string option" where
  "firstWithCards cardsCopy [] = None"
| "firstWithCards cardsCopy (card' # rest) =
     (if jsGt (toNumber (objGet cardsCopy card')) (Num 0) then Some card'
      else firstWithCards cardsCopy rest)"

definition applyQuickCount :: "int \<Rightarrow> state \<Rightarrow> state" where
  "applyQuickCount value s =
     (if jsLe (getTotalCardsRemaining s) (Num 0) then s
      else
        let cardsCopy = cardsRemaining s;
            cardToRemove =
              (if value = 1 then firstWithCards cardsCopy [''2'', ''3'', ''4'', ''5'', ''6'']
               else if value = 0 then firstWithCards cardsCopy [''7'', ''8'', ''9'']
               else if value = - 1 then
                 (if jsGt (toNumber (objGet cardsCopy ''10'')) (Num 0) then Some ''10''
                  else if jsGt (toNumber (objGet cardsCopy ''A'')) (Num 0) then Some ''A''
                  else None)
               else None)
        in case cardToRemove of
             None \<Rightarrow> s
           | Some c \<Rightarrow>
               s\<lparr>history := history s @ [QuickEntry value c (runningCount s) (cardsRemaining s)],
                 cardsRemaining := objSet cardsCopy c (jsSub (toNumber (objGet cardsCopy c)) (Num 1)),
                 runningCount := runningCount s + value\<rparr>)"

definition undo :: "state \<Rightarrow> state" where
  "undo s =
     (if length (history s) = 0 then s
      else
        let lastAction = last (history s)
        in s\<lparr>runningCount := rc lastAction,
              cardsRemaining := remaining lastAction,
              history := butlast (history s)\<rparr>)"

subsection \<open>Counts and true count\<close>

definition getRemainingDecks :: "state \<Rightarrow> rat jsnumber" where
  "getRemainingDecks s = jsDiv (toRat (getTotalCardsRemaining s)) (Num 52)"

definition getTrueCount :: "state \<Rightarrow> rat jsnumber" where
  "getTrueCount s =
     (let remaining = getRemainingDecks s
      in if jsGt remaining (Num 0) then jsDiv (Num (of_int (runningCount s))) remaining else Num 0)"

definition getTrueCountRounded :: "state \<Rightarrow> int jsnumber" where
  "getTrueCountRounded s = MathRound (getTrueCount s)"

text \<open>The object \<^verbatim>\<open>getCardsRemainingByCategory\<close> returns.\<close>

record categoryCounts =
  plusOne :: int
  plusOnePercent :: string
  neutral :: int
  neutralPercent :: string
  minusOne :: int
  minusOnePercent :: string

definition getCardsRemainingByCategory :: "state \<Rightarrow> categoryCounts" where
  "getCardsRemainingByCategory s =
     (let plusOneCards = foldl (\<lambda>sum card'. sum + orZero (objGet (cardsRemaining s) card')) 0
                           [''2'', ''3'', ''4'', ''5'', ''6''];
          neutralCards = foldl (\<lambda>sum card'. sum + orZero (objGet (cardsRemaining s) card')) 0
                           [''7'', ''8'', ''9''];
          minusOneCards = orZero (objGet (cardsRemaining s) ''10'') + orZero (objGet (cardsRemaining s) ''A'');
          totalCards = getTotalCardsRemaining s
      in \<lparr>plusOne = plusOneCards,
          plusOnePercent = (if jsGt totalCards (Num 0)
                            then toFixed1 (jsMul (jsDiv (Num (of_int plusOneCards)) (toRat totalCards)) (Num 100))
                            else ''0.0''),
          neutral = neutralCards,
          neutralPercent = (if jsGt totalCards (Num 0)
                            then toFixed1 (jsMul (jsDiv (Num (of_int neutralCards)) (toRat totalCards)) (Num 100))
                            else ''0.0''),
          minusOne = minusOneCards,
          minusOnePercent = (if jsGt totalCards (Num 0)
                            then toFixed1 (jsMul (jsDiv (Num (of_int minusOneCards)) (toRat totalCards)) (Num 100))
                            else ''0.0'')\<rparr>)"

subsection \<open>The legacy recommendation\<close>

definition getBasicStrategyActionLegacy :: "string \<Rightarrow> string \<Rightarrow> int jsnumber \<Rightarrow> rules \<Rightarrow> string" where
  "getBasicStrategyActionLegacy handType' handValue' dealer rules' =
     (if handType' = ''hard'' then
        (let v = parseInt handValue' in
         if jsGe v (Num 17) then ''Stand''
         else if v = Num 16 then (if jsIncludes [2, 3, 4, 5, 6] dealer then ''Stand'' else ''Hit'')
         else if v = Num 15 then (if jsIncludes [2, 3, 4, 5, 6] dealer then ''Stand'' else ''Hit'')
         else if v = Num 14 then (if jsIncludes [2, 3, 4, 5, 6] dealer then ''Stand'' else ''Hit'')
         else if v = Num 13 then (if jsIncludes [2, 3, 4, 5, 6] dealer then ''Stand'' else ''Hit'')
         else if v = Num 12 then (if jsIncludes [4, 5, 6] dealer then ''Stand'' else ''Hit'')
         else if v = Num 11 then ''Double''
         else if v = Num 10 then (if jsIncludes [2, 3, 4, 5, 6, 7, 8, 9] dealer then ''Double'' else ''Hit'')
         else if v = Num 9 then (if jsIncludes [3, 4, 5, 6] dealer then ''Double'' else ''Hit'')
         else ''Hit'')
      else if handType' = ''soft'' then
        (let v = parseInt handValue' in
         if v = Num 9 then ''Stand''
         else if v = Num 8 then (if jsIncludes [2, 3, 4, 5, 6] dealer then ''Double'' else ''Stand'')
         else if v = Num 7 then
           (if jsIncludes [3, 4, 5, 6] dealer then ''Double''
            else if jsIncludes [2, 7, 8] dealer then ''Stand'' else ''Hit'')
         else if v = Num 6 then (if jsIncludes [3, 4, 5, 6] dealer then ''Double'' else ''Hit'')
         else if v = Num 5 \<or> v = Num 4 then (if jsIncludes [4, 5, 6] dealer then ''Double'' else ''Hit'')
         else if v = Num 3 \<or> v = Num 2 then (if jsIncludes [5, 6] dealer then ''Double'' else ''Hit'')
         else ''Hit'')
      else if handType' = ''pairs'' then
        (if handValue' = ''A'' then ''Split''
         else if handValue' = ''10'' then ''Stand''
         else if handValue' = ''9'' then (if jsIncludes [2, 3, 4, 5, 6, 8, 9] dealer then ''Split'' else ''Stand'')
         else if handValue' = ''8'' then ''Split''
         else if handValue' = ''7'' then (if jsIncludes [2, 3, 4, 5, 6, 7] dealer then ''Split'' else ''Hit'')
         else if handValue' = ''6'' then
           (if jsIncludes [2, 3, 4, 5, 6] dealer then (if das rules' then ''Split'' else ''Hit'') else ''Hit'')
         else if handValue' = ''5'' then ''Double''
         else if handValue' = ''4'' then (if jsIncludes [5, 6] dealer \<and> das rules' then ''Split'' else ''Hit'')
         else if handValue' = ''3'' \<or> handValue' = ''2'' then
           (if jsIncludes [2, 3, 4, 5, 6, 7] dealer \<and> das rules' then ''Split'' else ''Hit'')
         else ''Hit'')
      else ''Hit'')"

text \<open>
  \<^verbatim>\<open>getRecommendationLegacy\<close> works out an action and a colour and then builds the
  recommendation object, for which it calls \<^verbatim>\<open>calculateEV\<close>. \<open>legacyDecision\<close> is not a
  function of the file: it is the action and the colour that the function has worked out
  when it reaches one of its two object literals (lines 346 and 414). The function itself
  is \<open>getRecommendationLegacy\<close> below, and it delivers the two values only if the call of
  \<^verbatim>\<open>calculateEV\<close> returns.
\<close>

definition actionColors :: "(string \<times> string) list" where
  "actionColors = [(''Stand'', ''green''), (''Hit'', ''red''), (''Double'', ''yellow''),
     (''Split'', ''blue''), (''Insurance'', ''purple''), (''Surrender'', ''orange'')]"

definition legacyDecision :: "state \<Rightarrow> string \<times> string" where
  "legacyDecision s =
     (let dealer = (if dealerCard s = ''A'' then Num 11 else parseInt (dealerCard s));
          tc = getTrueCountRounded s
      in if dealer = Num 11 \<and> insurance (rules s) \<and> jsGe tc (Num 3) then (''Insurance'', ''purple'')
         else
           let action = '''';
               action =
                 (if lateSurrender (rules s) then
                    (let v = parseInt (handValue s) in
                     if handType s = ''hard''
                        \<and> ((v = Num 16 \<and> jsIncludes [9, 10, 11] dealer) \<or> (v = Num 15 \<and> dealer = Num 10))
                     then ''Surrender'' else action)
                  else action);
               action =
                 (if action = '''' then
                    (let handKey = handType s @ ''-'' @ handValue s in
                     if handKey = ''hard-16'' \<and> dealer = Num 10 \<and> jsGe tc (Num 0) then ''Stand''
                     else if handKey = ''hard-15'' \<and> dealer = Num 10 \<and> jsGe tc (Num 4) then ''Stand''
                     else if handKey = ''hard-12'' \<and> dealer = Num 3 \<and> jsGe tc (Num 2) then ''Stand''
                     else if handKey = ''hard-12'' \<and> dealer = Num 2 \<and> jsGe tc (Num 3) then ''Stand''
                     else if handKey = ''hard-10'' \<and> (dealer = Num 10 \<or> dealer = Num 11) \<and> jsGe tc (Num 4)
                       then ''Double''
                     else if handKey = ''hard-11'' \<and> dealer = Num 11 \<and> jsGe tc (Num 1) then ''Double''
                     else if handKey = ''hard-9'' \<and> dealer = Num 2 \<and> jsGe tc (Num 1) then ''Double''
                     else if handKey = ''hard-9'' \<and> dealer = Num 7 \<and> jsGe tc (Num 3) then ''Double''
                     else if handKey = ''soft-8'' \<and> dealer = Num 6 \<and> jsGe tc (Num 3) then ''Double''
                     else if handKey = ''pairs-9'' \<and> dealer = Num 7 \<and> jsGe tc (Num 3) then ''Split''
                     else action)
                  else action);
               action =
                 (if action = '''' then
                    getBasicStrategyActionLegacy (handType s) (handValue s) dealer (rules s)
                  else action)
           in (action, case objGet actionColors action of Some c \<Rightarrow> c | None \<Rightarrow> ''gray''))"

subsection \<open>Identifiers the file does not bind\<close>

text \<open>
  \<open>boundNames\<close> lists every name that an import or a declaration of the file binds at
  module level or in the body of the component. Reading any other identifier looks it up
  in the global environment, and raises \<^verbatim>\<open>ReferenceError\<close> when it is not there either.
  The global environment is a parameter: a partial map from names to values.
\<close>

datatype error = ReferenceError string

definition boundNames :: "string list" where
  "boundNames =
     [''React'', ''useState'', ''useEffect'', ''Button'', ''Card'', ''CardContent'', ''CardHeader'',
      ''CardTitle'', ''Select'', ''SelectContent'', ''SelectItem'', ''SelectTrigger'', ''SelectValue'',
      ''Input'', ''Badge'', ''Separator'', ''Undo'', ''RotateCcw'', ''TrendingUp'', ''AlertCircle'',
      ''Check'', ''X'', ''Moon'', ''Sun'', ''Zap'', ''HelpCircle'', ''ChevronDown'', ''ChevronUp'',
      ''Info'', ''cn'', ''motion'', ''AnimatePresence'', ''Tooltip'', ''TooltipContent'',
      ''TooltipProvider'', ''TooltipTrigger'', ''DEFAULT_COMPREHENSIVE_RULES'',
      ''calculateBaseHouseEdge'', ''calculateCountAdjustedEV'', ''recommendBetUnits'',
      ''getCountingSystem'', ''calculateTrueCount'', ''generateStrategyResponse'',
      ''AdvancedRulesPanel'', ''RULE_INFO'', ''FAQ_DATA'', ''InfoTooltip'', ''BlackjackTrainer'',
      ''rules'', ''setRules'', ''showRulesPanel'', ''setShowRulesPanel'', ''showFAQ'', ''setShowFAQ'',
      ''darkMode'', ''setDarkMode'', ''runningCount'', ''setRunningCount'', ''cardsRemaining'',
      ''setCardsRemaining'', ''history'', ''setHistory'', ''quickInput'', ''setQuickInput'',
      ''handType'', ''setHandType'', ''handValue'', ''setHandValue'', ''dealerCard'',
      ''setDealerCard'', ''recommendation'', ''setRecommendation'', ''jsonResponse'',
      ''setJsonResponse'', ''resetShoe'', ''quickStartStandard'', ''getTotalCardsRemaining'',
      ''getRemainingDecks'', ''getTrueCount'', ''getTrueCountRounded'',
      ''getCardsRemainingByCategory'', ''applyCard'', ''removeCard'', ''applyQuickCount'', ''undo'',
      ''processQuickInput'', ''getRecommendation'', ''getBasicStrategyActionLegacy'',
      ''getRecommendationLegacy'', ''getCountColor'', ''getEVColor'', ''decksRemaining'', ''tc'',
      ''tcRounded'', ''cardsByCategory'', ''baseHouseEdge'', ''countAdjustedEV'', ''betUnits'']"

definition readIdentifier :: "(string \<Rightarrow> 'v option) \<Rightarrow> string \<Rightarrow> error + 'v" where
  "readIdentifier globals name =
     (case globals name of Some v \<Rightarrow> Inr v | None \<Rightarrow> Inl (ReferenceError name))"

text \<open>
  \<^verbatim>\<open>quickStartStandard\<close> reads \<^verbatim>\<open>DEFAULT_RULES\<close> as the argument of \<^verbatim>\<open>setRules\<close>, before
  either call is made. Were the name defined, \<^verbatim>\<open>resetShoe\<close> would still fill the shoe for
  the deck count of the current render.
\<close>

definition quickStartStandard :: "(string \<Rightarrow> rules option) \<Rightarrow> state \<Rightarrow> error + state" where
  "quickStartStandard globals s =
     (case readIdentifier globals ''DEFAULT_RULES'' of
        Inl e \<Rightarrow> Inl e
      | Inr r \<Rightarrow> Inr ((resetShoe s)\<lparr>rules := r\<rparr>))"

text \<open>
  Both object literals of \<^verbatim>\<open>getRecommendationLegacy\<close> (lines 346 and 414) read
  \<^verbatim>\<open>calculateEV\<close>, with the rounded true count as its argument.
\<close>

definition getRecommendationLegacy ::
  "(string \<Rightarrow> (int jsnumber \<Rightarrow> rules \<Rightarrow> rat) option) \<Rightarrow> state \<Rightarrow> error + state" where
  "getRecommendationLegacy globals s =
     (let tc = getTrueCountRounded s; (a, c) = legacyDecision s
      in case readIdentifier globals ''calculateEV'' of
           Inl e \<Rightarrow> Inl e
         | Inr calculateEV \<Rightarrow>
             Inr (s\<lparr>recommendation := Some \<lparr>action = a, ev = calculateEV tc (rules s), color = c\<rparr>\<rparr>))"

subsection \<open>The values of a render\<close>

text \<open>
  Lines 446-452 of the component body. The four functions called there are imported from
  modules outside the file.
\<close>

record ('h, 'e, 'b) renderValues =
  decksRemaining :: "rat jsnumber"
  tc :: "rat jsnumber"
  tcRounded :: "int jsnumber"
  cardsByCategory :: categoryCounts
  baseHouseEdge :: 'h
  countAdjustedEV :: 'e
  betUnits :: 'b

definition renderValues ::
  "(int \<Rightarrow> rat jsnumber \<Rightarrow> string \<Rightarrow> rat jsnumber) \<Rightarrow> (rules \<Rightarrow> 'h)
     \<Rightarrow> ('h \<Rightarrow> rat jsnumber \<Rightarrow> rules \<Rightarrow> 'e) \<Rightarrow> (rat jsnumber \<Rightarrow> rules \<Rightarrow> 'b)
     \<Rightarrow> state \<Rightarrow> ('h, 'e, 'b) renderValues" where
  "renderValues calculateTrueCount calculateBaseHouseEdge calculateCountAdjustedEV recommendBetUnits s =
     (let decksRemaining = getRemainingDecks s;
          tc = calculateTrueCount (runningCount s) decksRemaining (countingSystem (rules s));
          tcRounded = MathRound tc;
          cardsByCategory = getCardsRemainingByCategory s;
          baseHouseEdge = calculateBaseHouseEdge (rules s);
          countAdjustedEV = calculateCountAdjustedEV baseHouseEdge tc (rules s);
          betUnits = recommendBetUnits tc (rules s)
      in \<lparr>decksRemaining = decksRemaining, tc = tc, tcRounded = tcRounded,
          cardsByCategory = cardsByCategory, baseHouseEdge = baseHouseEdge,
          countAdjustedEV = countAdjustedEV, betUnits = betUnits\<rparr>)"


section \<open>Notions of the specification\<close>

text \<open>
  The ten ranks of a shoe, in the order the card grid lists them (line 1012): the low, the
  neutral and the high ranks.
\<close>

definition ranks :: "string list" where
  "ranks = [''2'', ''3'', ''4'', ''5'', ''6''] @ [''7'', ''8'', ''9''] @ [''10'', ''A'']"

text \<open>
  The capacity of a rank in a shoe of \<open>n\<close> decks: sixteen ten-valued cards and four cards of
  every other rank per deck.
\<close>

definition capacity :: "int \<Rightarrow> string \<Rightarrow> int" where
  "capacity n r = (if r = ''10'' then n * 16 else n * 4)"

text \<open>
  A shoe whose keys are exactly the ten ranks, and a shoe whose counts are all numbers.
\<close>

definition keysAreRanks :: "shoe \<Rightarrow> bool" where
  "keysAreRanks sh = (distinct (map fst sh) \<and> set (map fst sh) = set ranks)"


text \<open>
  A count is in range when it is a number between zero and the capacity of its rank; a shoe
  is well formed when its keys are exactly the ten ranks and every count is in range.
\<close>

definition countOk :: "int \<Rightarrow> string \<times> int jsnumber \<Rightarrow> bool" where
  "countOk nd kv = (case snd kv of Num n \<Rightarrow> 0 \<le> n \<and> n \<le> capacity nd (fst kv) | NaN \<Rightarrow> False)"

definition shoeOk :: "int \<Rightarrow> shoe \<Rightarrow> bool" where
  "shoeOk nd sh = (keysAreRanks sh \<and> list_all (countOk nd) sh)"

text \<open>The invariant of the specification, read off the state rank by rank.\<close>

definition withinCapacity :: "state \<Rightarrow> bool" where
  "withinCapacity s =
     list_all (\<lambda>r. case objGet (cardsRemaining s) r of
                      Some (Num n) \<Rightarrow> 0 \<le> n \<and> n \<le> capacity (numDecks (rules s)) r
                    | _ \<Rightarrow> False) ranks"

text \<open>
  The invariant that the operations preserve: the shoe and every snapshot kept in the
  history are well formed for the deck count of the rules.
\<close>

definition stateOk :: "int \<Rightarrow> state \<Rightarrow> bool" where
  "stateOk nd s = (numDecks (rules s) = nd \<and> shoeOk nd (cardsRemaining s)
                   \<and> list_all (\<lambda>e. shoeOk nd (remaining e)) (history s))"

text \<open>The events of a session. An event is valid when the rank it names is one of the ten.\<close>

datatype operation = Apply string | Remove string | QuickApply int | Undo | Reset

fun perform :: "(string \<Rightarrow> tags) \<Rightarrow> state \<Rightarrow> operation \<Rightarrow> state" where
  "perform gcs s (Apply r) = applyCard gcs r s"
| "perform gcs s (Remove r) = removeCard gcs r s"
| "perform gcs s (QuickApply b) = applyQuickCount b s"
| "perform gcs s Undo = undo s"
| "perform gcs s Reset = resetShoe s"

fun validRanks :: "operation \<Rightarrow> bool" where
  "validRanks (Apply r) = (r \<in> set ranks)"
| "validRanks (Remove r) = (r \<in> set ranks)"
| "validRanks _ = True"

text \<open>
  The order in which a quick-count bucket tries its ranks, as the specification words it,
  and the test that a rank has cards left.
\<close>

definition bucketOrder :: "int \<Rightarrow> string list" where
  "bucketOrder b =
     (if b = 1 then [''2'', ''3'', ''4'', ''5'', ''6'']
      else if b = 0 then [''7'', ''8'', ''9'']
      else if b = - 1 then [''10'', ''A'']
      else [])"

definition hasCards :: "shoe \<Rightarrow> string \<Rightarrow> bool" where
  "hasCards sh r = jsGt (toNumber (objGet sh r)) (Num 0)"

subsection \<open>Example data\<close>

text \<open>
  The Hi-Lo tags as the FAQ text of the file states them (line 56); the Hi-Opt I tags, a
  published system in which the two and the ace count zero; and a six-deck rules object as
  the quick-start button names it (line 519).
\<close>

definition hiLoTags :: tags where
  "hiLoTags = objGet [(''2'', 1), (''3'', 1), (''4'', 1), (''5'', 1), (''6'', 1),
     (''7'', 0), (''8'', 0), (''9'', 0), (''10'', - 1), (''A'', - 1)]"

definition hiOptITags :: tags where
  "hiOptITags = objGet [(''2'', 0), (''3'', 1), (''4'', 1), (''5'', 1), (''6'', 1),
     (''7'', 0), (''8'', 0), (''9'', 0), (''10'', - 1), (''A'', 0)]"

definition vegas6 :: rules where
  "vegas6 = \<lparr>numDecks = 6, countingSystem = ''hi-lo'', insurance = True,
              lateSurrender = False, das = True\<rparr>"

definition fresh6 :: state where
  "fresh6 = resetShoe (initialState vegas6)"

text \<open>
  States of a six-deck session under Hi-Lo. In \<open>tieState\<close> 104 cards are gone, two more
  high than low ones: four decks remain at running count \<open>-2\<close>. In \<open>insState\<close> 208 cards
  are gone, six more low than high ones: two decks remain at running count \<open>6\<close>, and the
  dealer shows an ace. In \<open>neutralGone\<close> the sevens, eights and nines are gone.
\<close>

definition tieState :: state where
  "tieState = (initialState vegas6)\<lparr>runningCount := - 2,
     cardsRemaining := [(''2'', Num 0), (''3'', Num 21), (''4'', Num 24), (''5'', Num 24),
        (''6'', Num 24), (''7'', Num 0), (''8'', Num 0), (''9'', Num 24), (''10'', Num 67),
        (''A'', Num 24)]\<rparr>"

definition insState :: state where
  "insState = (initialState vegas6)\<lparr>runningCount := 6,
     cardsRemaining := [(''2'', Num 8), (''3'', Num 8), (''4'', Num 8), (''5'', Num 8),
        (''6'', Num 8), (''7'', Num 6), (''8'', Num 6), (''9'', Num 6), (''10'', Num 36),
        (''A'', Num 10)],
     dealerCard := ''A''\<rparr>"

definition neutralGone :: state where
  "neutralGone = (initialState vegas6)\<lparr>
     cardsRemaining := [(''2'', Num 24), (''3'', Num 24), (''4'', Num 24), (''5'', Num 24),
        (''6'', Num 24), (''7'', Num 0), (''8'', Num 0), (''9'', Num 0), (''10'', Num 96),
        (''A'', Num 24)]\<rparr>"

text \<open>
  Stand-ins for the imported functions of the render body: the true count as the
  specification defines it, and an edge, an expected value and a bet that hand their
  arguments on.
\<close>

definition specTrueCount :: "int \<Rightarrow> rat jsnumber \<Rightarrow> string \<Rightarrow> rat jsnumber" where
  "specTrueCount runningCount' decks cs =
     (if jsGt decks (Num 0) then jsDiv (Num (of_int runningCount')) decks else Num 0)"

text \<open>
  A registry with the two systems, a rules object that selects Hi-Opt I, and the fresh
  six-deck shoe under it. In \<open>allDealt\<close> every card of the six decks is gone.
\<close>

definition registry :: "string \<Rightarrow> tags" where
  "registry cs = (if cs = ''hi-opt-1'' then hiOptITags else hiLoTags)"

definition freshHiOpt :: state where
  "freshHiOpt = resetShoe (initialState (vegas6\<lparr>countingSystem := ''hi-opt-1''\<rparr>))"

definition allDealt :: state where
  "allDealt = (initialState vegas6)\<lparr>
     cardsRemaining := [(''2'', Num 0), (''3'', Num 0), (''4'', Num 0), (''5'', Num 0),
        (''6'', Num 0), (''7'', Num 0), (''8'', Num 0), (''9'', Num 0), (''10'', Num 0),
        (''A'', Num 0)]\<rparr>"

text \<open>
  In \<open>negState\<close> 208 cards are gone, six more high than low ones: two decks remain at running
  count \<open>-6\<close>. The hand is the initial one, a hard 16 against a ten.
\<close>

definition negState :: state where
  "negState = (initialState vegas6)\<lparr>runningCount := - 6,
     cardsRemaining := [(''2'', Num 10), (''3'', Num 9), (''4'', Num 9), (''5'', Num 9),
        (''6'', Num 9), (''7'', Num 6), (''8'', Num 6), (''9'', Num 6), (''10'', Num 32),
        (''A'', Num 8)]\<rparr>"

text \<open>
  The example states carry an empty history, which none of the functions applied to them
  reads. Their shoes and running counts are those of sessions: \<open>deals\<close> is the run of
  events that deals \<open>k\<close> cards of rank \<open>r\<close> for each pair \<open>(r, k)\<close> of a list, and \<open>dealt\<close>
  follows the shoe and the running count through such a run, as long as every deal finds
  its cards.
\<close>

definition deals :: "(string \<times> nat) list \<Rightarrow> operation list" where
  "deals ps = concat (map (\<lambda>(r, k). replicate k (Apply r)) ps)"

fun dealt :: "(string \<Rightarrow> tags) \<Rightarrow> shoe \<times> int \<times> rules \<Rightarrow> (string \<times> nat) list
                \<Rightarrow> (shoe \<times> int \<times> rules) option" where
  "dealt gcs x [] = Some x"
| "dealt gcs (sh, c, rl) ((r, k) # ps) =
     (if jsGe (toNumber (objGet sh r)) (Num (int k))
      then dealt gcs (objSet sh r (Num (orZero (objGet sh r) - int k)),
                      c + int k * (case gcs (countingSystem rl) r of None \<Rightarrow> 0 | Some w \<Rightarrow> w),
                      rl) ps
      else None)"

definition tieDeals :: "(string \<times> nat) list" where
  "tieDeals = [(''2'', 24), (''3'', 3), (''7'', 24), (''8'', 24), (''10'', 29)]"

definition insDeals :: "(string \<times> nat) list" where
  "insDeals = [(''2'', 16), (''3'', 16), (''4'', 16), (''5'', 16), (''6'', 16), (''7'', 18),
               (''8'', 18), (''9'', 18), (''10'', 60), (''A'', 14)]"

definition negDeals :: "(string \<times> nat) list" where
  "negDeals = [(''2'', 14), (''3'', 15), (''4'', 15), (''5'', 15), (''6'', 15), (''7'', 18),
               (''8'', 18), (''9'', 18), (''10'', 64), (''A'', 16)]"

definition neutralDeals :: "(string \<times> nat) list" where
  "neutralDeals = [(''7'', 24), (''8'', 24), (''9'', 24)]"

definition allDeals :: "(string \<times> nat) list" where
  "allDeals = [(''2'', 24), (''3'', 24), (''4'', 24), (''5'', 24), (''6'', 24), (''7'', 24),
               (''8'', 24), (''9'', 24), (''10'', 96), (''A'', 24)]"

section \<open>Properties of the shoe operations\<close>

subsection \<open>Reading and writing a well-formed shoe\<close>

lemma fresh_cards:
  "cardsRemaining (resetShoe s) =
     [(''2'', Num (numDecks (rules s) * 4)), (''3'', Num (numDecks (rules s) * 4)),
      (''4'', Num (numDecks (rules s) * 4)), (''5'', Num (numDecks (rules s) * 4)),
      (''6'', Num (numDecks (rules s) * 4)), (''7'', Num (numDecks (rules s) * 4)),
      (''8'', Num (numDecks (rules s) * 4)), (''9'', Num (numDecks (rules s) * 4)),
      (''10'', Num (numDecks (rules s) * 16)), (''A'', Num (numDecks (rules s) * 4))]"
  by (simp add: resetShoe_def Let_def)

lemma objGet_countOk:
  "list_all (countOk nd) sh \<Longrightarrow> r \<in> fst ` set sh \<Longrightarrow>
     \<exists>n. objGet sh r = Some (Num n) \<and> 0 \<le> n \<and> n \<le> capacity nd r"
  by (induction sh) (force simp: countOk_def split: jsnumber.splits)+

lemma shoeOk_get:
  "shoeOk nd sh \<Longrightarrow> r \<in> set ranks \<Longrightarrow>
     \<exists>n. objGet sh r = Some (Num n) \<and> 0 \<le> n \<and> n \<le> capacity nd r"
  using objGet_countOk[of nd sh r] by (auto simp: shoeOk_def keysAreRanks_def)

lemma objSet_keys: "r \<in> fst ` set sh \<Longrightarrow> map fst (objSet sh r v) = map fst sh"
  by (induction sh) force+

lemma objSet_countOk:
  "list_all (countOk nd) sh \<Longrightarrow> countOk nd (r, v) \<Longrightarrow> list_all (countOk nd) (objSet sh r v)"
  by (induction sh) auto

lemma shoeOk_set:
  "shoeOk nd sh \<Longrightarrow> r \<in> set ranks \<Longrightarrow> 0 \<le> m \<Longrightarrow> m \<le> capacity nd r \<Longrightarrow>
     shoeOk nd (objSet sh r (Num m))"
  unfolding shoeOk_def keysAreRanks_def
  using objSet_keys[of r sh "Num m"] objSet_countOk[of nd sh r "Num m"]
  by (auto simp: countOk_def)

lemma shoeOk_fresh:
  "0 \<le> numDecks (rules s) \<Longrightarrow> shoeOk (numDecks (rules s)) (cardsRemaining (resetShoe s))"
  by (simp add: fresh_cards shoeOk_def keysAreRanks_def ranks_def countOk_def capacity_def)

subsection \<open>Every operation preserves the invariant\<close>

lemma stateOk_reset: "0 \<le> nd \<Longrightarrow> numDecks (rules s) = nd \<Longrightarrow> stateOk nd (resetShoe s)"
  using shoeOk_fresh[of s] by (simp add: stateOk_def) (simp add: resetShoe_def Let_def)

lemma stateOk_apply:
  assumes "stateOk nd s" "r \<in> set ranks"
  shows "stateOk nd (applyCard gcs r s)"
proof -
  from assms obtain n
    where n: "objGet (cardsRemaining s) r = Some (Num n)" "0 \<le> n" "n \<le> capacity nd r"
    using shoeOk_get[of nd "cardsRemaining s" r] by (auto simp: stateOk_def)
  show ?thesis
  proof (cases "n \<le> 0")
    case True
    then show ?thesis using assms n by (simp add: applyCard_def)
  next
    case False
    then have "shoeOk nd (objSet (cardsRemaining s) r (Num (n - 1)))"
      using shoeOk_set[of nd "cardsRemaining s" r "n - 1"] assms n by (simp add: stateOk_def)
    then show ?thesis using assms n False by (simp add: applyCard_def stateOk_def Let_def)
  qed
qed

lemma stateOk_remove:
  assumes "stateOk nd s" "r \<in> set ranks"
  shows "stateOk nd (removeCard gcs r s)"
proof -
  from assms obtain n
    where n: "objGet (cardsRemaining s) r = Some (Num n)" "0 \<le> n" "n \<le> capacity nd r"
    using shoeOk_get[of nd "cardsRemaining s" r] by (auto simp: stateOk_def)
  have nd: "numDecks (rules s) = nd" using assms by (simp add: stateOk_def)
  show ?thesis
  proof (cases "n \<ge> capacity nd r")
    case True
    then show ?thesis using assms n nd by (simp add: removeCard_def capacity_def Let_def)
  next
    case False
    then have "shoeOk nd (objSet (cardsRemaining s) r (Num (n + 1)))"
      using shoeOk_set[of nd "cardsRemaining s" r "n + 1"] assms n by (simp add: stateOk_def)
    then show ?thesis
      using assms n nd False by (simp add: removeCard_def stateOk_def capacity_def Let_def)
  qed
qed

lemma firstWithCards_mem:
  "firstWithCards sh cs = Some c \<Longrightarrow> c \<in> set cs \<and> jsGt (toNumber (objGet sh c)) (Num 0)"
  by (induction cs) (auto split: if_splits)

lemma stateOk_decrement:
  assumes "stateOk nd s" "c \<in> set ranks" "jsGt (toNumber (objGet (cardsRemaining s) c)) (Num 0)"
    and snapshot: "remaining e = cardsRemaining s"
  shows "stateOk nd
           (s\<lparr>history := history s @ [e],
              cardsRemaining := objSet (cardsRemaining s) c
                                  (jsSub (toNumber (objGet (cardsRemaining s) c)) (Num 1)),
              runningCount := k\<rparr>)"
proof -
  from assms obtain n
    where n: "objGet (cardsRemaining s) c = Some (Num n)" "0 \<le> n" "n \<le> capacity nd c"
    using shoeOk_get[of nd "cardsRemaining s" c] by (auto simp: stateOk_def)
  have "shoeOk nd (objSet (cardsRemaining s) c (Num (n - 1)))"
    using shoeOk_set[of nd "cardsRemaining s" c "n - 1"] assms n by (simp add: stateOk_def)
  then show ?thesis using assms n snapshot by (simp add: stateOk_def)
qed

lemma stateOk_quick:
  assumes "stateOk nd s"
  shows "stateOk nd (applyQuickCount b s)"
proof -
  let ?pick = "(if b = 1 then firstWithCards (cardsRemaining s) [''2'', ''3'', ''4'', ''5'', ''6'']
               else if b = 0 then firstWithCards (cardsRemaining s) [''7'', ''8'', ''9'']
               else if b = - 1 then
                 (if jsGt (toNumber (objGet (cardsRemaining s) ''10'')) (Num 0) then Some ''10''
                  else if jsGt (toNumber (objGet (cardsRemaining s) ''A'')) (Num 0) then Some ''A''
                  else None)
               else None)"
  have pick: "c \<in> set ranks \<and> jsGt (toNumber (objGet (cardsRemaining s) c)) (Num 0)"
    if "?pick = Some c" for c
    using that firstWithCards_mem[of "cardsRemaining s" _ c]
    by (auto simp: ranks_def split: if_splits)
  show ?thesis
  proof (cases ?pick)
    case None
    then show ?thesis using assms by (simp add: applyQuickCount_def Let_def)
  next
    case (Some c)
    then show ?thesis
      using assms pick[OF Some]
        stateOk_decrement[of nd s c "QuickEntry b c (runningCount s) (cardsRemaining s)"
          "runningCount s + b"]
      by (simp add: applyQuickCount_def Let_def)
  qed
qed

lemma stateOk_undo: "stateOk nd s \<Longrightarrow> stateOk nd (undo s)"
  by (cases "history s" rule: rev_cases) (auto simp: undo_def stateOk_def Let_def butlast_append)

lemma stateOk_perform:
  "0 \<le> nd \<Longrightarrow> stateOk nd s \<Longrightarrow> validRanks op \<Longrightarrow> stateOk nd (perform gcs s op)"
proof (cases op)
  case Reset
  assume "0 \<le> nd" "stateOk nd s"
  then show ?thesis using Reset stateOk_reset[of nd s] by (simp add: stateOk_def)
qed (simp_all add: stateOk_apply stateOk_remove stateOk_quick stateOk_undo)

lemma stateOk_foldl:
  "0 \<le> nd \<Longrightarrow> stateOk nd s \<Longrightarrow> list_all validRanks ops \<Longrightarrow>
     stateOk nd (foldl (perform gcs) s ops)"
  by (induction ops arbitrary: s) (auto simp: stateOk_perform)

lemma stateOk_within: "stateOk nd s \<Longrightarrow> withinCapacity s"
  unfolding withinCapacity_def list_all_iff
proof
  fix r assume "stateOk nd s" "r \<in> set ranks"
  then obtain n where "objGet (cardsRemaining s) r = Some (Num n)" "0 \<le> n" "n \<le> capacity nd r"
    using shoeOk_get[of nd "cardsRemaining s" r] by (auto simp: stateOk_def)
  moreover have "numDecks (rules s) = nd" using \<open>stateOk nd s\<close> by (simp add: stateOk_def)
  ultimately show "case objGet (cardsRemaining s) r of
                      Some (Num n) \<Rightarrow> 0 \<le> n \<and> n \<le> capacity (numDecks (rules s)) r
                    | _ \<Rightarrow> False" by simp
qed

subsection \<open>Apply then undo\<close>

text \<open>
  Claim C1. For every rank with a positive remaining count, \<^verbatim>\<open>applyCard\<close> followed by
  \<^verbatim>\<open>undo\<close> gives back the state it started from: the shoe mapping, the running count
  and the history (and every other field) are exactly what they were before the apply.
\<close>

theorem apply_undo_roundtrip:
  "jsGt (toNumber (objGet (cardsRemaining s) r)) (Num 0) \<Longrightarrow> undo (applyCard gcs r s) = s"
  by (cases "toNumber (objGet (cardsRemaining s) r)")
     (simp_all add: applyCard_def undo_def Let_def)

theorem apply_undo_roundtrip_witness:
  "jsGt (toNumber (objGet (cardsRemaining fresh6) ''5'')) (Num 0)
   \<and> undo (applyCard registry ''5'' fresh6)
       = fresh6"
proof -
  have h: "jsGt (toNumber (objGet (cardsRemaining fresh6) ''5'')) (Num 0)"
    by (simp add: fresh6_def fresh_cards initialState_def vegas6_def)
  show ?thesis
    using h apply_undo_roundtrip[OF h, of registry] by simp
qed

subsection \<open>The capacity invariant\<close>

text \<open>
  Claim C2. Start from a fresh shoe (the state \<^verbatim>\<open>resetShoe\<close> produces) for a deck count
  that is not negative, and run any sequence of apply, remove, quick-apply, undo and reset
  events whose ranks are among the ten ranks. After each event, that is after every prefix
  of the sequence, every rank holds a count between zero and its capacity.
\<close>

theorem shoe_within_capacity:
  assumes "0 \<le> numDecks (rules s)" "list_all validRanks ops"
  shows "withinCapacity (foldl (perform gcs) (resetShoe s) (take k ops))"
proof -
  have "list_all validRanks (take k ops)"
    using assms(2) by (auto simp: list_all_iff dest: in_set_takeD)
  moreover have "stateOk (numDecks (rules s)) (resetShoe s)"
    using assms(1) by (simp add: stateOk_reset)
  ultimately show ?thesis
    using stateOk_foldl assms(1) stateOk_within by blast
qed

theorem shoe_within_capacity_witness:
  "0 \<le> numDecks (rules (initialState vegas6))
   \<and> list_all validRanks [Apply ''5'', QuickApply (- 1), Remove ''5'', Remove ''5'', Undo, Reset, Apply ''A'']
   \<and> withinCapacity
        (foldl (perform registry) fresh6
           (take 4 [Apply ''5'', QuickApply (- 1), Remove ''5'', Remove ''5'', Undo, Reset, Apply ''A'']))"
proof -
  have h1: "0 \<le> numDecks (rules (initialState vegas6))"
    by (simp add: initialState_def vegas6_def)
  have h2: "list_all validRanks
              [Apply ''5'', QuickApply (- 1), Remove ''5'', Remove ''5'', Undo, Reset, Apply ''A'']"
    by (simp add: ranks_def)
  show ?thesis
    using h1 h2 shoe_within_capacity[OF h1 h2, of registry 4] by (simp add: fresh6_def)
qed

subsection \<open>The quick count\<close>

lemma objGet_objSet: "objGet (objSet sh k v) k' = (if k' = k then Some v else objGet sh k')"
  by (induction sh) auto

lemma firstWithCards_find: "firstWithCards sh cs = find (hasCards sh) cs"
  by (induction cs) (simp_all add: hasCards_def)

lemma quick_pick:
  "b \<in> {1, 0, - 1} \<Longrightarrow>
   (if b = 1 then firstWithCards sh [''2'', ''3'', ''4'', ''5'', ''6'']
    else if b = 0 then firstWithCards sh [''7'', ''8'', ''9'']
    else if b = - 1 then
      (if jsGt (toNumber (objGet sh ''10'')) (Num 0) then Some ''10''
       else if jsGt (toNumber (objGet sh ''A'')) (Num 0) then Some ''A''
       else None)
    else None) = find (hasCards sh) (bucketOrder b)"
  by (auto simp: bucketOrder_def firstWithCards_find hasCards_def)

text \<open>In a shoe whose counts are in range the total is a number, and positive as soon as
  one rank has cards.\<close>

lemma total_positive:
  "list_all (countOk nd) sh \<Longrightarrow>
     \<exists>t. foldl jsAdd (Num a) (map snd sh) = Num t \<and> a \<le> t \<and> (hasCards sh r \<longrightarrow> a < t)"
proof (induction sh arbitrary: a)
  case Nil
  then show ?case by (simp add: hasCards_def)
next
  case (Cons kv sh)
  obtain k n where kv: "kv = (k, Num n)" "0 \<le> n"
    using Cons.prems by (cases kv; cases "snd kv") (auto simp: countOk_def)
  have "list_all (countOk nd) sh" using Cons.prems by simp
  from Cons.IH[OF this, of "a + n"] obtain t
    where t: "foldl jsAdd (Num (a + n)) (map snd sh) = Num t" "a + n \<le> t"
      "hasCards sh r \<longrightarrow> a + n < t"
    by blast
  have "hasCards (kv # sh) r \<longrightarrow> a < t"
    using kv t by (auto simp: hasCards_def split: if_splits)
  then show ?case using kv t by simp
qed

text \<open>
  Claim C3, as the code has it. In a well-formed shoe, a quick count of bucket \<open>+1\<close>, \<open>0\<close>
  or \<open>-1\<close> picks the first rank of the bucket's order that has cards. The count of that
  rank goes down by one, the running count changes by the value of the bucket (whatever
  the tag of the rank in the active counting system), and an entry with the bucket, the
  rank, the old running count and the old shoe is pushed on the history. When no rank of
  the bucket has cards the state is unchanged, other ranks having cards or not.
\<close>

theorem quick_count_bucket:
  assumes ok: "shoeOk (numDecks (rules s)) (cardsRemaining s)" and b: "b \<in> {1, 0, - 1}"
  shows "applyQuickCount b s =
           (case find (hasCards (cardsRemaining s)) (bucketOrder b) of
              None \<Rightarrow> s
            | Some r \<Rightarrow>
                s\<lparr>history := history s @ [QuickEntry b r (runningCount s) (cardsRemaining s)],
                  cardsRemaining := objSet (cardsRemaining s) r
                                      (Num (orZero (objGet (cardsRemaining s) r) - 1)),
                  runningCount := runningCount s + b\<rparr>)"
proof (cases "find (hasCards (cardsRemaining s)) (bucketOrder b)")
  case None
  then show ?thesis
    using quick_pick[OF b, of "cardsRemaining s"] by (simp add: applyQuickCount_def Let_def)
next
  case (Some r)
  then have r: "hasCards (cardsRemaining s) r"
    by (auto simp: find_Some_iff)
  then obtain n where n: "objGet (cardsRemaining s) r = Some (Num n)"
    by (cases "objGet (cardsRemaining s) r"; cases "toNumber (objGet (cardsRemaining s) r)")
       (auto simp: hasCards_def)
  from ok have "list_all (countOk (numDecks (rules s))) (cardsRemaining s)"
    by (simp add: shoeOk_def)
  from total_positive[OF this, of 0 r] r
  have "\<not> jsLe (getTotalCardsRemaining s) (Num 0)"
    by (auto simp: getTotalCardsRemaining_def objValues_def)
  then show ?thesis
    using Some n quick_pick[OF b, of "cardsRemaining s"]
    by (simp add: applyQuickCount_def Let_def)
qed

lemma shoeOk_tieState: "shoeOk (numDecks (rules tieState)) (cardsRemaining tieState)"
  by (simp add: tieState_def initialState_def vegas6_def shoeOk_def keysAreRanks_def ranks_def
        countOk_def capacity_def)

lemma shoeOk_neutralGone: "shoeOk (numDecks (rules neutralGone)) (cardsRemaining neutralGone)"
  by (simp add: neutralGone_def initialState_def vegas6_def shoeOk_def keysAreRanks_def ranks_def
        countOk_def capacity_def)

text \<open>
  In \<open>tieState\<close> the twos are gone and bucket \<open>+1\<close> takes a three; in \<open>neutralGone\<close>
  bucket \<open>0\<close> finds nothing and the state stays, with 240 cards in the shoe.
\<close>

theorem quick_count_bucket_witness:
  "shoeOk (numDecks (rules tieState)) (cardsRemaining tieState) \<and> (1::int) \<in> {1, 0, - 1}
   \<and> find (hasCards (cardsRemaining tieState)) (bucketOrder 1) = Some ''3''
   \<and> applyQuickCount 1 tieState =
        tieState\<lparr>history := [QuickEntry 1 ''3'' (- 2) (cardsRemaining tieState)],
                 cardsRemaining := objSet (cardsRemaining tieState) ''3'' (Num 20),
                 runningCount := - 1\<rparr>
   \<and> shoeOk (numDecks (rules neutralGone)) (cardsRemaining neutralGone) \<and> (0::int) \<in> {1, 0, - 1}
   \<and> find (hasCards (cardsRemaining neutralGone)) (bucketOrder 0) = None
   \<and> getTotalCardsRemaining neutralGone = Num 240
   \<and> applyQuickCount 0 neutralGone = neutralGone"
proof -
  have b1: "(1::int) \<in> {1, 0, - 1}" and b0: "(0::int) \<in> {1, 0, - 1}" by simp_all
  have f1: "find (hasCards (cardsRemaining tieState)) (bucketOrder 1) = Some ''3''"
    by (simp add: tieState_def bucketOrder_def hasCards_def)
  have f0: "find (hasCards (cardsRemaining neutralGone)) (bucketOrder 0) = None"
    by (simp add: neutralGone_def bucketOrder_def hasCards_def)
  have t0: "getTotalCardsRemaining neutralGone = Num 240"
    by (simp add: neutralGone_def getTotalCardsRemaining_def objValues_def)
  have "applyQuickCount 1 tieState =
        tieState\<lparr>history := [QuickEntry 1 ''3'' (- 2) (cardsRemaining tieState)],
                 cardsRemaining := objSet (cardsRemaining tieState) ''3'' (Num 20),
                 runningCount := - 1\<rparr>"
    using quick_count_bucket[OF shoeOk_tieState b1] f1
    by (simp add: tieState_def initialState_def)
  moreover have "applyQuickCount 0 neutralGone = neutralGone"
    using quick_count_bucket[OF shoeOk_neutralGone b0] f0 by simp
  ultimately show ?thesis
    using shoeOk_tieState shoeOk_neutralGone b1 b0 f1 f0 t0 by simp
qed

text \<open>
  Claim C3 as stated fails. Under Hi-Opt I the two is tagged \<open>0\<close>. On the fresh shoe the
  quick count of bucket \<open>+1\<close> picks the two and raises the running count by \<open>1\<close>, where
  \<^verbatim>\<open>applyCard\<close> of the two leaves it; and under Hi-Lo, where the counts agree, the entry
  pushed is still not the one \<^verbatim>\<open>applyCard\<close> pushes.
\<close>

theorem quick_count_not_tag_weight:
  "find (hasCards (cardsRemaining freshHiOpt)) (bucketOrder 1) = Some ''2''
   \<and> registry (countingSystem (rules freshHiOpt)) ''2'' = Some 0
   \<and> runningCount (applyQuickCount 1 freshHiOpt) = runningCount freshHiOpt + 1
   \<and> runningCount (applyCard registry ''2'' freshHiOpt) = runningCount freshHiOpt
   \<and> history (applyQuickCount 1 fresh6) \<noteq> history (applyCard registry ''2'' fresh6)"
  by (simp add: freshHiOpt_def fresh6_def applyQuickCount_def applyCard_def
        getTotalCardsRemaining_def objValues_def fresh_cards Let_def bucketOrder_def hasCards_def
        registry_def hiOptITags_def hiLoTags_def)
     (simp add: resetShoe_def initialState_def vegas6_def)

subsection \<open>Ranks outside the shoe\<close>

text \<open>
  Claim C8, as the code has it. \<^verbatim>\<open>applyCard\<close> and \<^verbatim>\<open>removeCard\<close> return a state and
  nothing else: no check of the rank, no report to the caller. For a rank that is not one
  of the ten and that the active counting system does not tag, both leave the running
  count and the count of each of the ten ranks as they were.
\<close>

theorem invalid_rank_counts_kept:
  assumes "c \<notin> set ranks" "gcs (countingSystem (rules s)) c = None"
  shows "runningCount (applyCard gcs c s) = runningCount s
         \<and> runningCount (removeCard gcs c s) = runningCount s
         \<and> (\<forall>r\<in>set ranks.
               objGet (cardsRemaining (applyCard gcs c s)) r = objGet (cardsRemaining s) r
               \<and> objGet (cardsRemaining (removeCard gcs c s)) r = objGet (cardsRemaining s) r)"
  using assms by (auto simp: applyCard_def removeCard_def Let_def objGet_objSet)

theorem invalid_rank_counts_kept_witness:
  "''J'' \<notin> set ranks \<and> registry (countingSystem (rules fresh6)) ''J'' = None
   \<and> runningCount (applyCard registry ''J'' fresh6) = 0
   \<and> runningCount (removeCard registry ''J'' fresh6) = 0
   \<and> objGet (cardsRemaining (applyCard registry ''J'' fresh6)) ''10'' = Some (Num 96)
   \<and> objGet (cardsRemaining (removeCard registry ''J'' fresh6)) ''10'' = Some (Num 96)"
proof -
  have h1: "''J'' \<notin> set ranks" by (simp add: ranks_def)
  have h2: "registry (countingSystem (rules fresh6)) ''J'' = None"
    by (simp add: registry_def hiLoTags_def fresh6_def resetShoe_def initialState_def vegas6_def)
  have m: "''10'' \<in> set ranks" by (simp add: ranks_def)
  have f: "runningCount fresh6 = 0" "objGet (cardsRemaining fresh6) ''10'' = Some (Num 96)"
    by (simp_all add: fresh6_def fresh_cards initialState_def vegas6_def)
       (simp add: resetShoe_def)
  show ?thesis
    using invalid_rank_counts_kept[of "''J''" registry fresh6, OF h1 h2] h1 h2 m f by simp
qed

text \<open>
  Claim C8 as stated fails. The jack is not a rank of the shoe. \<^verbatim>\<open>applyCard\<close> of the jack
  on the fresh shoe finds \<^verbatim>\<open>undefined <= 0\<close> false, gives the shoe a key for the jack
  with the count \<open>NaN\<close> and pushes a history entry; \<^verbatim>\<open>removeCard\<close> changes the shoe in
  the same way.
\<close>

theorem invalid_rank_changes_shoe:
  "''J'' \<notin> set ranks
   \<and> objGet (cardsRemaining fresh6) ''J'' = None \<and> history fresh6 = []
   \<and> objGet (cardsRemaining (applyCard registry ''J'' fresh6)) ''J'' = Some NaN
   \<and> history (applyCard registry ''J'' fresh6) = [CardEntry ''J'' 0 0 (cardsRemaining fresh6)]
   \<and> objGet (cardsRemaining (removeCard registry ''J'' fresh6)) ''J'' = Some NaN"
  by (simp add: fresh6_def applyCard_def removeCard_def fresh_cards Let_def ranks_def
        registry_def hiLoTags_def objGet_objSet)
     (simp add: resetShoe_def initialState_def vegas6_def)

subsection \<open>Counts by category\<close>







subsection \<open>The example states are reached by dealing\<close>

text \<open>
  Dealing \<open>k\<close> cards of a rank that holds at least \<open>k\<close> lowers its count by \<open>k\<close> and moves
  the running count by \<open>k\<close> times the tag of the rank. From the fresh six-deck shoe the runs
  of deals below arrive at the shoe and the running count of each example state.
\<close>

lemma objSet_same: "objGet sh r = Some v \<Longrightarrow> objSet sh r v = sh"
  by (induction sh) auto

lemma objSet_twice: "objSet (objSet sh r v) r w = objSet sh r w"
  by (induction sh) auto

lemma deal_many:
  assumes "objGet (cardsRemaining s) r = Some (Num n)" "int k \<le> n"
  shows "cardsRemaining (foldl (perform gcs) s (replicate k (Apply r)))
           = objSet (cardsRemaining s) r (Num (n - int k))
         \<and> runningCount (foldl (perform gcs) s (replicate k (Apply r)))
           = runningCount s + int k * (case gcs (countingSystem (rules s)) r of None \<Rightarrow> 0 | Some w \<Rightarrow> w)
         \<and> rules (foldl (perform gcs) s (replicate k (Apply r))) = rules s"
  using assms
proof (induction k arbitrary: s n)
  case 0
  then show ?case by (simp add: objSet_same)
next
  case (Suc k)
  let ?s = "applyCard gcs r s"
  have pos: "0 < n" using Suc.prems by simp
  have s1: "cardsRemaining ?s = objSet (cardsRemaining s) r (Num (n - 1))"
    "runningCount ?s = runningCount s + (case gcs (countingSystem (rules s)) r of None \<Rightarrow> 0 | Some w \<Rightarrow> w)"
    "rules ?s = rules s"
    using Suc.prems pos by (simp_all add: applyCard_def Let_def)
  have g: "objGet (cardsRemaining ?s) r = Some (Num (n - 1))"
    by (simp add: s1 objGet_objSet)
  have "int k \<le> n - 1" using Suc.prems by simp
  from Suc.IH[OF g this] show ?case
    by (simp add: s1 objSet_twice algebra_simps)
qed

lemma deal_many_shoe:
  "jsGe (toNumber (objGet (cardsRemaining s) r)) (Num (int k)) \<Longrightarrow>
     cardsRemaining (foldl (perform gcs) s (replicate k (Apply r)))
       = objSet (cardsRemaining s) r (Num (orZero (objGet (cardsRemaining s) r) - int k))"
  by (cases "objGet (cardsRemaining s) r"; cases "toNumber (objGet (cardsRemaining s) r)")
     (auto simp: deal_many)

lemma deal_many_count:
  "jsGe (toNumber (objGet (cardsRemaining s) r)) (Num (int k)) \<Longrightarrow>
     runningCount (foldl (perform gcs) s (replicate k (Apply r)))
       = runningCount s + int k * (case gcs (countingSystem (rules s)) r of None \<Rightarrow> 0 | Some w \<Rightarrow> w)"
  by (cases "objGet (cardsRemaining s) r"; cases "toNumber (objGet (cardsRemaining s) r)")
     (auto simp: deal_many)

lemma deal_many_rules:
  "jsGe (toNumber (objGet (cardsRemaining s) r)) (Num (int k)) \<Longrightarrow>
     rules (foldl (perform gcs) s (replicate k (Apply r))) = rules s"
  by (cases "objGet (cardsRemaining s) r"; cases "toNumber (objGet (cardsRemaining s) r)")
     (auto simp: deal_many)

lemma dealt_run:
  "dealt gcs (cardsRemaining s, runningCount s, rules s) ps = Some (sh, c, rl) \<Longrightarrow>
     cardsRemaining (foldl (perform gcs) s (deals ps)) = sh
     \<and> runningCount (foldl (perform gcs) s (deals ps)) = c"
proof (induction ps arbitrary: s)
  case Nil
  then show ?case by (simp add: deals_def)
next
  case (Cons p ps)
  obtain r k where p: "p = (r, k)" by (cases p)
  let ?s = "foldl (perform gcs) s (replicate k (Apply r))"
  from Cons.prems p have ge: "jsGe (toNumber (objGet (cardsRemaining s) r)) (Num (int k))"
    by (simp split: if_splits)
  with Cons.prems p have "dealt gcs (cardsRemaining ?s, runningCount ?s, rules ?s) ps = Some (sh, c, rl)"
    by (simp add: deal_many_shoe deal_many_count deal_many_rules)
  from Cons.IH[OF this] show ?case
    using p by (simp add: deals_def)
qed

lemma fresh6_fields:
  "cardsRemaining fresh6 = [(''2'', Num 24), (''3'', Num 24), (''4'', Num 24), (''5'', Num 24),
      (''6'', Num 24), (''7'', Num 24), (''8'', Num 24), (''9'', Num 24), (''10'', Num 96),
      (''A'', Num 24)]"
  "runningCount fresh6 = 0" "rules fresh6 = vegas6"
  by (simp_all add: fresh6_def fresh_cards) (simp_all add: resetShoe_def initialState_def vegas6_def Let_def)


lemma tieState_reached:
  "cardsRemaining (foldl (perform registry) fresh6 (deals tieDeals)) = cardsRemaining tieState
   \<and> runningCount (foldl (perform registry) fresh6 (deals tieDeals)) = runningCount tieState"
proof (rule dealt_run)
  show "dealt registry (cardsRemaining fresh6, runningCount fresh6, rules fresh6) tieDeals
        = Some (cardsRemaining tieState, runningCount tieState, vegas6)"
    by (simp add: fresh6_fields tieDeals_def tieState_def registry_def hiLoTags_def vegas6_def)
qed

lemma insState_reached:
  "cardsRemaining (foldl (perform registry) fresh6 (deals insDeals)) = cardsRemaining insState
   \<and> runningCount (foldl (perform registry) fresh6 (deals insDeals)) = runningCount insState"
proof (rule dealt_run)
  show "dealt registry (cardsRemaining fresh6, runningCount fresh6, rules fresh6) insDeals
        = Some (cardsRemaining insState, runningCount insState, vegas6)"
    by (simp add: fresh6_fields insDeals_def insState_def registry_def hiLoTags_def vegas6_def)
qed

lemma negState_reached:
  "cardsRemaining (foldl (perform registry) fresh6 (deals negDeals)) = cardsRemaining negState
   \<and> runningCount (foldl (perform registry) fresh6 (deals negDeals)) = runningCount negState"
proof (rule dealt_run)
  show "dealt registry (cardsRemaining fresh6, runningCount fresh6, rules fresh6) negDeals
        = Some (cardsRemaining negState, runningCount negState, vegas6)"
    by (simp add: fresh6_fields negDeals_def negState_def registry_def hiLoTags_def vegas6_def)
qed

lemma neutralGone_reached:
  "cardsRemaining (foldl (perform registry) fresh6 (deals neutralDeals)) = cardsRemaining neutralGone
   \<and> runningCount (foldl (perform registry) fresh6 (deals neutralDeals)) = runningCount neutralGone"
proof (rule dealt_run)
  show "dealt registry (cardsRemaining fresh6, runningCount fresh6, rules fresh6) neutralDeals
        = Some (cardsRemaining neutralGone, runningCount neutralGone, vegas6)"
    by (simp add: fresh6_fields neutralDeals_def neutralGone_def initialState_def registry_def
          hiLoTags_def vegas6_def)
qed

lemma allDealt_reached:
  "cardsRemaining (foldl (perform registry) fresh6 (deals allDeals)) = cardsRemaining allDealt
   \<and> runningCount (foldl (perform registry) fresh6 (deals allDeals)) = runningCount allDealt"
proof (rule dealt_run)
  show "dealt registry (cardsRemaining fresh6, runningCount fresh6, rules fresh6) allDeals
        = Some (cardsRemaining allDealt, runningCount allDealt, vegas6)"
    by (simp add: fresh6_fields allDeals_def allDealt_def initialState_def registry_def
          hiLoTags_def vegas6_def)
qed

section \<open>Properties of the rounding and of the legacy decision\<close>

subsection \<open>The true count is a number\<close>

lemma trueCount_number: "\<exists>q. getTrueCount s = Num q"
proof (cases "getRemainingDecks s")
  case (Num d)
  then show ?thesis by (simp add: getTrueCount_def Let_def)
next
  case NaN
  then show ?thesis by (simp add: getTrueCount_def Let_def)
qed

lemma rounded_number: "\<exists>t. getTrueCountRounded s = Num t"
  using trueCount_number[of s] by (auto simp: getTrueCountRounded_def)


lemma MathRound_half: "MathRound (Num (of_int n - 1 / 2)) = Num n"
  by simp

lemma parseInt_10: "parseInt ''10'' = Num 10"
  by (simp add: parseInt_def isWhiteSpace_def isDigit_def digitValue_def)

lemma parseInt_16: "parseInt ''16'' = Num 16"
  by (simp add: parseInt_def isWhiteSpace_def isDigit_def digitValue_def)


lemma trueCount_tieState: "getTrueCount tieState = Num (- 1 / 2)"
  by code_simp



subsection \<open>Quotients in doubles\<close>

text \<open>
  Where the decks are not a whole number the quotients are rounded twice, and the rounded
  true count is that of the code, not that of the exact quotient: at running count \<open>27\<close>
  with 216 cards the double is \<open>6.499999999999999\<close> and rounds to \<open>6\<close>, where \<open>13/2\<close> would give
  \<open>7\<close>; at \<open>-30\<close> with 240 cards it rounds to \<open>-7\<close>; and 69 cards of 240 are \<^verbatim>\<open>28.7\<close> per cent,
  the double being \<open>28.749999999999996\<close>.
\<close>

lemma double_true_count_27_216:
  "jsDiv (Num 27) (jsDiv (Num 216) (Num 52)) = Num (7318349394477055 / 1125899906842624)
   \<and> MathRound (jsDiv (Num 27) (jsDiv (Num 216) (Num 52))) = Num 6"
  by code_simp

lemma double_true_count_30_240:
  "MathRound (jsDiv (Num (- 30)) (jsDiv (Num 240) (Num 52))) = Num (- 7)"
  by code_simp

lemma double_percentage_69_240:
  "toFixed1 (jsMul (jsDiv (Num 69) (Num 240)) (Num 100)) = ''28.7''"
  by code_simp

subsection \<open>What the legacy recommendation delivers\<close>

text \<open>
  \<^verbatim>\<open>calculateEV\<close> is not a name of the file. With no global of that name the legacy
  recommendation raises before it stores anything; with one, it stores the decision of
  \<open>legacyDecision\<close> and the expected value for the rounded true count.
\<close>

lemma calculateEV_not_bound: "''calculateEV'' \<notin> set boundNames"
  by (simp add: boundNames_def)


lemma legacy_recommendation:
  "getRecommendationLegacy globals s =
     (case globals ''calculateEV'' of
        None \<Rightarrow> Inl (ReferenceError ''calculateEV'')
      | Some f \<Rightarrow>
          Inr (s\<lparr>recommendation :=
                   Some \<lparr>action = fst (legacyDecision s), ev = f (getTrueCountRounded s) (rules s),
                         color = snd (legacyDecision s)\<rparr>\<rparr>))"
  by (simp add: getRecommendationLegacy_def readIdentifier_def Let_def split: option.splits prod.splits)

subsection \<open>The basic strategy\<close>

lemma if_in: "(if c then a else b) \<in> S \<longleftrightarrow> (c \<longrightarrow> a \<in> S) \<and> (\<not> c \<longrightarrow> b \<in> S)"
  by simp

lemma basic_actions:
  "getBasicStrategyActionLegacy ht hv d r \<in> {''Stand'', ''Hit'', ''Double'', ''Split''}"
  unfolding getBasicStrategyActionLegacy_def Let_def
  by (simp only: if_in) simp

lemma basic_unknown_type:
  "ht \<notin> {''hard'', ''soft'', ''pairs''} \<Longrightarrow> getBasicStrategyActionLegacy ht hv d r = ''Hit''"
  unfolding getBasicStrategyActionLegacy_def by simp

lemma basic_low_hard:
  "\<not> jsGe (parseInt hv) (Num 9) \<Longrightarrow> getBasicStrategyActionLegacy ''hard'' hv d r = ''Hit''"
  unfolding getBasicStrategyActionLegacy_def Let_def by (cases "parseInt hv") auto

lemma basic_unknown_soft:
  "parseInt hv \<notin> Num ` {2..9} \<Longrightarrow> getBasicStrategyActionLegacy ''soft'' hv d r = ''Hit''"
  unfolding getBasicStrategyActionLegacy_def Let_def by (cases "parseInt hv") auto

lemma basic_unknown_pair:
  "hv \<notin> set ranks \<Longrightarrow> getBasicStrategyActionLegacy ''pairs'' hv d r = ''Hit''"
  unfolding getBasicStrategyActionLegacy_def by (simp add: ranks_def)

lemma basic_hard16_10: "getBasicStrategyActionLegacy ''hard'' ''16'' (Num 10) r = ''Hit''"
  by (simp add: getBasicStrategyActionLegacy_def parseInt_16 jsIncludes_def Let_def)

text \<open>The hard 16 against a ten, with late surrender off, at the second object literal.\<close>

lemma hard16_stand:
  assumes "handType s = ''hard''" "handValue s = ''16''" "dealerCard s = ''10''"
    and "\<not> lateSurrender (rules s)" and "getTrueCountRounded s = Num t" "0 \<le> t"
  shows "fst (legacyDecision s) = ''Stand''"
  using assms by (simp add: legacyDecision_def parseInt_10 Let_def)

lemma hard16_decision:
  assumes "handType s = ''hard''" "handValue s = ''16''" "dealerCard s = ''10''"
    and "\<not> lateSurrender (rules s)" and "getTrueCountRounded s = Num t"
  shows "legacyDecision s = (if 0 \<le> t then (''Stand'', ''green'') else (''Hit'', ''red''))"
  using assms
  by (simp add: legacyDecision_def basic_hard16_10 parseInt_10 actionColors_def Let_def)

text \<open>
  Claim C4, as the code has it. \<^verbatim>\<open>getBasicStrategyActionLegacy\<close> answers every
  combination with one of Stand, Hit, Double and Split, and raises nothing. A combination
  that no branch matches is answered with the default Hit: a hand type other than
  \<^verbatim>\<open>hard\<close>, \<^verbatim>\<open>soft\<close> and \<^verbatim>\<open>pairs\<close>, a hard hand whose value is not a number of at
  least 9, a soft hand whose value is not one of 2 to 9, a pair whose rank is not one of
  the ten.
\<close>

theorem basic_strategy_default_hit:
  "getBasicStrategyActionLegacy ht hv d r \<in> {''Stand'', ''Hit'', ''Double'', ''Split''}
   \<and> (ht \<notin> {''hard'', ''soft'', ''pairs''} \<longrightarrow> getBasicStrategyActionLegacy ht hv d r = ''Hit'')
   \<and> (ht = ''hard'' \<and> \<not> jsGe (parseInt hv) (Num 9)
        \<longrightarrow> getBasicStrategyActionLegacy ht hv d r = ''Hit'')
   \<and> (ht = ''soft'' \<and> parseInt hv \<notin> Num ` {2..9}
        \<longrightarrow> getBasicStrategyActionLegacy ht hv d r = ''Hit'')
   \<and> (ht = ''pairs'' \<and> hv \<notin> set ranks \<longrightarrow> getBasicStrategyActionLegacy ht hv d r = ''Hit'')"
proof (intro conjI impI)
  show "getBasicStrategyActionLegacy ht hv d r \<in> {''Stand'', ''Hit'', ''Double'', ''Split''}"
    by (rule basic_actions)
next
  assume "ht \<notin> {''hard'', ''soft'', ''pairs''}"
  then show "getBasicStrategyActionLegacy ht hv d r = ''Hit''"
    by (rule basic_unknown_type)
next
  assume a: "ht = ''hard'' \<and> \<not> jsGe (parseInt hv) (Num 9)"
  show "getBasicStrategyActionLegacy ht hv d r = ''Hit''"
    unfolding conjunct1[OF a] by (rule basic_low_hard[OF conjunct2[OF a]])
next
  assume a: "ht = ''soft'' \<and> parseInt hv \<notin> Num ` {2..9}"
  show "getBasicStrategyActionLegacy ht hv d r = ''Hit''"
    unfolding conjunct1[OF a] by (rule basic_unknown_soft[OF conjunct2[OF a]])
next
  assume a: "ht = ''pairs'' \<and> hv \<notin> set ranks"
  show "getBasicStrategyActionLegacy ht hv d r = ''Hit''"
    unfolding conjunct1[OF a] by (rule basic_unknown_pair[OF conjunct2[OF a]])
qed

theorem basic_strategy_default_hit_witness:
  "''pair'' \<notin> {''hard'', ''soft'', ''pairs''}
   \<and> getBasicStrategyActionLegacy ''pair'' ''8'' (Num 10) vegas6 = ''Hit''
   \<and> \<not> jsGe (parseInt ''8'') (Num 9)
   \<and> getBasicStrategyActionLegacy ''hard'' ''8'' (Num 6) vegas6 = ''Hit''
   \<and> parseInt ''10'' \<notin> Num ` {2..9}
   \<and> getBasicStrategyActionLegacy ''soft'' ''10'' (Num 6) vegas6 = ''Hit''
   \<and> ''J'' \<notin> set ranks
   \<and> getBasicStrategyActionLegacy ''pairs'' ''J'' (Num 6) vegas6 = ''Hit''"
proof -
  have h1: "''pair'' \<notin> {''hard'', ''soft'', ''pairs''}" by simp
  have h2: "parseInt ''10'' \<notin> Num ` {2..9}" by (auto simp: parseInt_10)
  have h4: "\<not> jsGe (parseInt ''8'') (Num 9)"
    by (simp add: parseInt_def isWhiteSpace_def isDigit_def digitValue_def)
  have h3: "''J'' \<notin> set ranks" by (simp add: ranks_def)
  show ?thesis
    using h1 h2 h3 h4
      basic_strategy_default_hit[of "''pair''" "''8''" "Num 10" vegas6]
      basic_strategy_default_hit[of "''hard''" "''8''" "Num 6" vegas6]
      basic_strategy_default_hit[of "''soft''" "''10''" "Num 6" vegas6]
      basic_strategy_default_hit[of "''pairs''" "''J''" "Num 6" vegas6]
    by (simp only: simp_thms)
qed

text \<open>
  Claim C4 as stated fails. A pair written \<^verbatim>\<open>pair\<close>, as the data model of the
  specification spells the hand type, matches no branch: eights against a ten get Hit and
  no error, where the branch for \<^verbatim>\<open>pairs\<close> says Split. A hard 8, which the hand picker
  offers, has no branch of its own either and takes the catch-all of the hard hands.
\<close>

theorem basic_strategy_miss_is_hit:
  "getBasicStrategyActionLegacy ''pair'' ''8'' (Num 10) vegas6 = ''Hit''
   \<and> getBasicStrategyActionLegacy ''pairs'' ''8'' (Num 10) vegas6 = ''Split''
   \<and> getBasicStrategyActionLegacy ''hard'' ''8'' (Num 6) vegas6 = ''Hit''"
  by (simp add: getBasicStrategyActionLegacy_def parseInt_def isWhiteSpace_def isDigit_def
        digitValue_def Let_def)

subsection \<open>Insurance\<close>


text \<open>
  What the insurance branch would store if \<^verbatim>\<open>calculateEV\<close> were defined: the action
  Insurance and nothing beside it. The branch returns before the surrender, deviation and
  basic strategy tiers, and the object has no insurance flag.
\<close>

lemma legacy_insurance_attempt:
  assumes "globals ''calculateEV'' = Some f"
    and "dealerCard s = ''A''" "insurance (rules s)" "jsGe (getTrueCountRounded s) (Num 3)"
  shows "getRecommendationLegacy globals s =
           Inr (s\<lparr>recommendation :=
                    Some \<lparr>action = ''Insurance'', ev = f (getTrueCountRounded s) (rules s),
                          color = ''purple''\<rparr>\<rparr>)"
proof -
  have "legacyDecision s = (''Insurance'', ''purple'')"
    using assms(2-4) by (simp add: legacyDecision_def Let_def)
  then show ?thesis
    using assms(1) by (simp add: legacy_recommendation)
qed


subsection \<open>Hard 16 against a ten\<close>

text \<open>
  What the function would store for a hard 16 against a ten, late surrender off, if
  \<^verbatim>\<open>calculateEV\<close> were defined: Stand from a rounded true count of \<open>0\<close> on, by the index
  deviation, and Hit below, by the basic strategy.
\<close>

lemma legacy_hard16_attempt:
  assumes "globals ''calculateEV'' = Some f"
    and "handType s = ''hard''" "handValue s = ''16''" "dealerCard s = ''10''"
    and "\<not> lateSurrender (rules s)" and "getTrueCountRounded s = Num t"
  shows "getRecommendationLegacy globals s =
           Inr (s\<lparr>recommendation :=
                    Some \<lparr>action = (if 0 \<le> t then ''Stand'' else ''Hit''), ev = f (Num t) (rules s),
                          color = (if 0 \<le> t then ''green'' else ''red'')\<rparr>\<rparr>)"
  using assms(1,6) hard16_decision[OF assms(2-6)]
  by (simp add: legacy_recommendation)


subsection \<open>Rounding\<close>

lemma round_nearest: "\<bar>of_int \<lfloor>q + 1 / 2\<rfloor> - q\<bar> \<le> (1 / 2 :: rat)"
  by linarith

lemma round_tie: "q = of_int k + 1 / 2 \<Longrightarrow> \<lfloor>q + 1 / 2 :: rat\<rfloor> = k + 1"
  by linarith

text \<open>
  Claim C7, as the code has it. The rounded true count is \<^verbatim>\<open>Math.round\<close> of the true
  count: an integer at distance at most \<open>1/2\<close>, and for a true count half-way between two
  integers the greater of the two (\<open>+0.5\<close> gives \<open>1\<close>, \<open>-0.5\<close> gives \<open>0\<close>). In the render body
  the rounded value is computed apart, while the expected value and the bet units
  are computed from the true count as \<^verbatim>\<open>calculateTrueCount\<close> returned it.
\<close>

theorem rounding_ties_upward:
  "(\<exists>n. MathRound (Num q) = Num n \<and> \<bar>of_int n - q\<bar> \<le> 1 / 2
        \<and> (\<forall>k. q = of_int k + 1 / 2 \<longrightarrow> n = k + 1))
   \<and> getTrueCountRounded s = MathRound (getTrueCount s)
   \<and> tc (renderValues cTC cHE cEV cBet s)
       = cTC (runningCount s) (getRemainingDecks s) (countingSystem (rules s))
   \<and> tcRounded (renderValues cTC cHE cEV cBet s) = MathRound (tc (renderValues cTC cHE cEV cBet s))
   \<and> countAdjustedEV (renderValues cTC cHE cEV cBet s)
       = cEV (cHE (rules s)) (tc (renderValues cTC cHE cEV cBet s)) (rules s)
   \<and> betUnits (renderValues cTC cHE cEV cBet s)
       = cBet (tc (renderValues cTC cHE cEV cBet s)) (rules s)"
proof -
  have "\<bar>of_int \<lfloor>q + 1 / 2\<rfloor> - q\<bar> \<le> 1 / 2 \<and> (\<forall>k. q = of_int k + 1 / 2 \<longrightarrow> \<lfloor>q + 1 / 2\<rfloor> = k + 1)"
    using round_nearest[of q] round_tie[of q] by blast
  then show ?thesis
    by (simp add: getTrueCountRounded_def renderValues_def Let_def)
qed

text \<open>
  In \<open>tieState\<close> the true count is \<open>-1/2\<close>: it rounds to \<open>0\<close>, and the expected value and the
  bet are computed from \<open>-1/2\<close>.
\<close>

theorem rounding_ties_upward_witness:
  "(- 1 / 2 :: rat) = of_int (- 1) + 1 / 2
   \<and> MathRound (Num (- 1 / 2)) = Num 0
   \<and> getTrueCountRounded tieState = Num 0
   \<and> tcRounded (renderValues specTrueCount (\<lambda>r. 0 :: rat) (\<lambda>h t r. t) (\<lambda>t r. t) tieState) = Num 0
   \<and> countAdjustedEV (renderValues specTrueCount (\<lambda>r. 0 :: rat) (\<lambda>h t r. t) (\<lambda>t r. t) tieState)
       = Num (- 1 / 2)
   \<and> betUnits (renderValues specTrueCount (\<lambda>r. 0 :: rat) (\<lambda>h t r. t) (\<lambda>t r. t) tieState)
       = Num (- 1 / 2)"
proof -
  have h: "(- 1 / 2 :: rat) = of_int (- 1) + 1 / 2" by simp
  have c: "specTrueCount (runningCount tieState) (getRemainingDecks tieState)
             (countingSystem (rules tieState)) = Num (- 1 / 2)"
    using trueCount_tieState by (simp add: specTrueCount_def getTrueCount_def Let_def)
  have r: "MathRound (Num (- 1 / 2)) = Num 0" using MathRound_half[of 0] by simp
  show ?thesis
    using h c r trueCount_tieState
      rounding_ties_upward[of "- 1 / 2" tieState specTrueCount "\<lambda>r. 0 :: rat" "\<lambda>h t r. t" "\<lambda>t r. t"]
    by simp
qed

text \<open>
  Claim C7 as stated fails. The true count of \<open>tieState\<close> is \<open>-2 / (208 / 52)\<close>, which is
  \<open>-0.5\<close> in doubles as in rationals. It rounds to \<open>0\<close> and not, away from zero, to \<open>-1\<close>;
  the hard 16 against a ten of that state stands.
\<close>

theorem half_rounds_toward_plus_infinity:
  "getTrueCount tieState = Num (- 1 / 2)
   \<and> getTrueCountRounded tieState = Num 0
   \<and> getTrueCountRounded tieState \<noteq> Num (- 1)
   \<and> fst (legacyDecision tieState) = ''Stand''"
proof -
  have r: "getTrueCountRounded tieState = Num 0"
    using MathRound_half[of 0] by (simp add: getTrueCountRounded_def trueCount_tieState)
  have f: "handType tieState = ''hard''" "handValue tieState = ''16''"
    "dealerCard tieState = ''10''" "\<not> lateSurrender (rules tieState)"
    by (simp_all add: tieState_def initialState_def vegas6_def)
  have "fst (legacyDecision tieState) = ''Stand''"
    by (rule hard16_stand[OF f r]) simp
  then show ?thesis using r trueCount_tieState by simp
qed

subsection \<open>The quick start\<close>

text \<open>
  Claim C9. \<^verbatim>\<open>DEFAULT_RULES\<close> is not among the names the file binds; the one rules object
  it imports is \<^verbatim>\<open>DEFAULT_COMPREHENSIVE_RULES\<close>. In every state, and in every global
  environment that does not define the name, the quick start ends with a
  \<^verbatim>\<open>ReferenceError\<close> for \<^verbatim>\<open>DEFAULT_RULES\<close> and delivers no new state: neither the rules
  nor the shoe have been touched.
\<close>

theorem quick_start_reference_error:
  "''DEFAULT_RULES'' \<notin> set boundNames \<and> ''DEFAULT_COMPREHENSIVE_RULES'' \<in> set boundNames
   \<and> (globals ''DEFAULT_RULES'' = None
        \<longrightarrow> quickStartStandard globals s = Inl (ReferenceError ''DEFAULT_RULES''))"
  by (simp add: boundNames_def quickStartStandard_def readIdentifier_def)

theorem quick_start_reference_error_witness:
  "(\<lambda>name. None :: rules option) ''DEFAULT_RULES'' = None
   \<and> quickStartStandard (\<lambda>name. None) fresh6 = Inl (ReferenceError ''DEFAULT_RULES'')
   \<and> quickStartStandard (\<lambda>name. None) tieState = Inl (ReferenceError ''DEFAULT_RULES'')"
  using quick_start_reference_error[of "\<lambda>name. None" fresh6]
    quick_start_reference_error[of "\<lambda>name. None" tieState]
  by simp

end
